theory Spec2Isabelle
  imports Complex_Main
begin

section \<open>Host values: strings, numbers, dates\<close>

text \<open>
  JavaScript strings are modelled as \<open>string\<close> (a list of bytes, UTF-8).  The
  program only ever cuts strings at the ASCII characters comma, newline, slash and
  hash, which no multi-byte sequence contains, so the cuts fall where they fall on the
  UTF-16 strings of the host.
\<close>

definition is_ws :: "char \<Rightarrow> bool" where
  \<comment> \<open>the ASCII members of the white space that \<open>trim\<close> and \<open>parseFloat\<close> strip\<close>
  "is_ws c = (c = CHR 0x09 \<or> c = CHR 0x0A \<or> c = CHR 0x0B \<or> c = CHR 0x0C \<or> c = CHR 0x0D \<or> c = CHR 0x20)"

definition trim :: "string \<Rightarrow> string" where
  "trim s = rev (dropWhile is_ws (rev (dropWhile is_ws s)))"

text \<open>\<open>s.split(c)\<close> for a one-character separator: never empty, \<open>''''\<close> gives \<open>['''']\<close>.\<close>

fun split :: "char \<Rightarrow> string \<Rightarrow> string list" where
  "split c [] = [[]]"
| "split c (x # xs) =
     (if x = c then [] # split c xs
      else (case split c xs of w # ws \<Rightarrow> (x # w) # ws | [] \<Rightarrow> [[x]]))"

definition startsWith :: "string \<Rightarrow> string \<Rightarrow> bool" where
  "startsWith s p = (take (length p) s = p)"

text \<open>\<open>xs.indexOf(x)\<close>: the first position of \<open>x\<close>, or \<open>-1\<close>.\<close>

fun indexOf_from :: "int \<Rightarrow> 'a list \<Rightarrow> 'a \<Rightarrow> int" where
  "indexOf_from i [] x = -1"
| "indexOf_from i (y # ys) x = (if y = x then i else indexOf_from (i + 1) ys x)"

definition indexOf :: "'a list \<Rightarrow> 'a \<Rightarrow> int" where
  "indexOf xs x = indexOf_from 0 xs x"

text \<open>
  A JavaScript number is modelled by the mathematical value it stands for: rounding to
  binary64 is outside the model.  \<open>NaN\<close> and the infinities are values of their own.
\<close>

datatype number = Finite rat | PosInfinity | NegInfinity | NaN

definition isNaN :: "number \<Rightarrow> bool" where
  "isNaN n = (n = NaN)"

definition digit_of :: "char \<Rightarrow> nat option" where
  \<comment> \<open>the value of a decimal digit: its place in \<open>0123456789\<close>\<close>
  "digit_of c = map_of (zip ''0123456789'' [0, 1, 2, 3, 4, 5, 6, 7, 8, 9]) c"

definition is_digit :: "char \<Rightarrow> bool" where
  "is_digit c = (digit_of c \<noteq> None)"

definition digits_val :: "string \<Rightarrow> nat" where
  "digits_val ds = foldl (\<lambda>n c. 10 * n + (case digit_of c of Some d \<Rightarrow> d | None \<Rightarrow> 0)) 0 ds"

definition digit_char :: "nat \<Rightarrow> char" where
  "digit_char n = ''0123456789'' ! (n mod 10)"

text \<open>\<open>n.toString()\<close> for a natural number and for an integer.\<close>

fun show_nat :: "nat \<Rightarrow> string" where
  "show_nat n = (if n < 10 then [digit_char n] else show_nat (n div 10) @ [digit_char n])"

declare show_nat.simps [simp del]

definition show_int :: "int \<Rightarrow> string" where
  "show_int i = (if i < 0 then CHR ''-'' # show_nat (nat (- i)) else show_nat (nat i))"

text \<open>\<open>s.padStart(n, '0')\<close> and \<open>s.slice(-2)\<close>.\<close>

definition padStart0 :: "nat \<Rightarrow> string \<Rightarrow> string" where
  "padStart0 n s = replicate (n - length s) CHR ''0'' @ s"

definition slice_last2 :: "string \<Rightarrow> string" where
  "slice_last2 s = drop (length s - 2) s"

subsection \<open>\<open>parseFloat\<close>\<close>

text \<open>
  \<open>parseFloat\<close> skips leading white space and reads the longest prefix that is a
  decimal literal: an optional sign, then \<open>Infinity\<close>, or digits with an optional
  fraction and an optional exponent.  Whatever follows the prefix is ignored; with no
  such prefix the result is \<open>NaN\<close>.
\<close>

definition span_digits :: "string \<Rightarrow> string \<times> string" where
  "span_digits s = (takeWhile is_digit s, dropWhile is_digit s)"

definition exponent_part :: "string \<Rightarrow> int" where
  "exponent_part s =
     (case s of
        [] \<Rightarrow> 0
      | e # r \<Rightarrow>
          if e = CHR ''e'' \<or> e = CHR ''E'' then
            (case r of
               [] \<Rightarrow> 0
             | g # r' \<Rightarrow>
                 if g = CHR ''+'' then int (digits_val (fst (span_digits r')))
                 else if g = CHR ''-'' then - int (digits_val (fst (span_digits r')))
                 else int (digits_val (fst (span_digits r))))
          else 0)"

definition pow10 :: "int \<Rightarrow> rat" where
  "pow10 e = (if e < 0 then 1 / 10 ^ nat (- e) else 10 ^ nat e)"

definition unsigned_literal :: "string \<Rightarrow> rat option" where
  "unsigned_literal s =
     (let (ip, r1) = span_digits s;
          (fp, r2) = (case r1 of
                        [] \<Rightarrow> ([], r1)
                      | d # r \<Rightarrow> if d = CHR ''.'' \<and> (ip \<noteq> [] \<or> fst (span_digits r) \<noteq> [])
                                then span_digits r else ([], r1))
      in if ip = [] \<and> fp = [] then None
         else Some (of_nat (digits_val (ip @ fp)) * pow10 (exponent_part r2 - int (length fp))))"

definition parseFloat :: "string \<Rightarrow> number" where
  "parseFloat s =
     (let t = dropWhile is_ws s;
          neg = (t \<noteq> [] \<and> hd t = CHR ''-'');
          u = (if t \<noteq> [] \<and> (hd t = CHR ''-'' \<or> hd t = CHR ''+'') then tl t else t)
      in if startsWith u ''Infinity'' then (if neg then NegInfinity else PosInfinity)
         else (case unsigned_literal u of
                 None \<Rightarrow> NaN
               | Some q \<Rightarrow> Finite (if neg then - q else q)))"

subsection \<open>Dates\<close>

text \<open>
  A \<open>Date\<close> holds a time value: integer milliseconds since the epoch, or \<open>NaN\<close>
  (an invalid date), here \<open>None\<close>.  Day numbers and calendar dates are converted by
  the proleptic Gregorian rules.  The offset of local time from UTC belongs to the
  host; it is the parameter \<open>tza\<close> (from a time value, and whether that value is
  already UTC, to milliseconds), as the language standard's \<open>LocalTZA\<close>.
\<close>

type_synonym time_value = "int option"

definition msPerDay :: int where
  "msPerDay = 86400000"

definition days_from_civil :: "int \<Rightarrow> int \<Rightarrow> int \<Rightarrow> int" where
  "days_from_civil y m d =
     (let y' = (if m \<le> 2 then y - 1 else y);
          era = y' div 400;
          yoe = y' mod 400;
          doy = (153 * (if m > 2 then m - 3 else m + 9) + 2) div 5 + d - 1;
          doe = yoe * 365 + yoe div 4 - yoe div 100 + doy
      in era * 146097 + doe - 719468)"

definition civil_from_days :: "int \<Rightarrow> int \<times> int \<times> int" where
  "civil_from_days z0 =
     (let z = z0 + 719468;
          era = z div 146097;
          doe = z mod 146097;
          yoe = (doe - doe div 1460 + doe div 36524 - doe div 146096) div 365;
          doy = doe - (365 * yoe + yoe div 4 - yoe div 100);
          mp = (5 * doy + 2) div 153;
          d = doy - (153 * mp + 2) div 5 + 1;
          m = (if mp < 10 then mp + 3 else mp - 9);
          y = yoe + era * 400
      in (if m \<le> 2 then y + 1 else y, m, d))"

definition TimeClip :: "int \<Rightarrow> time_value" where
  "TimeClip t = (if \<bar>t\<bar> > 8640000000000000 then None else Some t)"

definition take_digits :: "nat \<Rightarrow> string \<Rightarrow> (int \<times> string) option" where
  "take_digits n s =
     (if n \<le> length s \<and> list_all is_digit (take n s)
      then Some (int (digits_val (take n s)), drop n s) else None)"

definition parse_year :: "string \<Rightarrow> (int \<times> string) option" where
  "parse_year s =
     (case s of
        [] \<Rightarrow> None
      | c # r \<Rightarrow>
          if c = CHR ''+'' then take_digits 6 r
          else if c = CHR ''-'' then
            (case take_digits 6 r of
               None \<Rightarrow> None
             | Some (y, r') \<Rightarrow> if y = 0 then None else Some (- y, r'))
          else take_digits 4 s)"

definition parse_dash2 :: "string \<Rightarrow> (int \<times> string) option" where
  \<comment> \<open>an optional \<open>-NN\<close>: absent, the element is \<open>1\<close>\<close>
  "parse_dash2 s =
     (case s of
        [] \<Rightarrow> Some (1, s)
      | c # r \<Rightarrow> if c = CHR ''-'' then take_digits 2 r else Some (1, s))"

definition parse_offset :: "string \<Rightarrow> int option option" where
  \<comment> \<open>\<open>Some None\<close>: no offset, local time; \<open>Some (Some ms)\<close>: \<open>Z\<close> or \<open>+HH:mm\<close>, \<open>-HH:mm\<close>\<close>
  "parse_offset s =
     (case s of
        [] \<Rightarrow> Some None
      | c # r \<Rightarrow>
          if c = CHR ''Z'' then (if r = [] then Some (Some 0) else None)
          else if c = CHR ''+'' \<or> c = CHR ''-'' then
            (case take_digits 2 r of
               None \<Rightarrow> None
             | Some (h, r1) \<Rightarrow>
                 (case r1 of
                    [] \<Rightarrow> None
                  | k # r2 \<Rightarrow>
                      if k \<noteq> CHR '':'' then None
                      else (case take_digits 2 r2 of
                              None \<Rightarrow> None
                            | Some (mi, r3) \<Rightarrow>
                                if r3 \<noteq> [] \<or> h > 23 \<or> mi > 59 then None
                                else Some (Some ((if c = CHR ''-'' then -1 else 1)
                                                  * (h * 3600000 + mi * 60000))))))
          else None)"

definition parse_seconds :: "string \<Rightarrow> (int \<times> int \<times> string) option" where
  \<comment> \<open>an optional \<open>:ss\<close> with an optional fraction, cut to milliseconds\<close>
  "parse_seconds s =
     (case s of
        [] \<Rightarrow> Some (0, 0, s)
      | c # r \<Rightarrow>
          if c \<noteq> CHR '':'' then Some (0, 0, s)
          else (case take_digits 2 r of
                  None \<Rightarrow> None
                | Some (sec, r1) \<Rightarrow>
                    (case r1 of
                       [] \<Rightarrow> Some (sec, 0, r1)
                     | d # r2 \<Rightarrow>
                         if d \<noteq> CHR ''.'' then Some (sec, 0, r1)
                         else (let fr = fst (span_digits r2)
                               in if fr = [] then None
                                  else Some (sec, int (digits_val (take 3 (fr @ ''00''))),
                                             snd (span_digits r2))))))"

definition parse_time :: "string \<Rightarrow> (int \<times> int option) option" where
  \<comment> \<open>after the \<open>T\<close>: milliseconds within the day, and the offset\<close>
  "parse_time s =
     (case take_digits 2 s of
        None \<Rightarrow> None
      | Some (h, r1) \<Rightarrow>
          (case r1 of
             [] \<Rightarrow> None
           | k # r2 \<Rightarrow>
               if k \<noteq> CHR '':'' then None
               else (case take_digits 2 r2 of
                       None \<Rightarrow> None
                     | Some (mi, r3) \<Rightarrow>
                         (case parse_seconds r3 of
                            None \<Rightarrow> None
                          | Some (sec, ms, r4) \<Rightarrow>
                              (case parse_offset r4 of
                                 None \<Rightarrow> None
                               | Some off \<Rightarrow>
                                   if h > 24 \<or> mi > 59 \<or> sec > 59
                                      \<or> (h = 24 \<and> (mi \<noteq> 0 \<or> sec \<noteq> 0 \<or> ms \<noteq> 0))
                                   then None
                                   else Some (h * 3600000 + mi * 60000 + sec * 1000 + ms, off))))))"

text \<open>
  \<open>new Date(s)\<close> for a string: the date-time string format of the language standard
  (\<open>YYYY-MM-DDTHH:mm:ss.sssZ\<close> and its shorter forms; a fraction of any length is cut
  to milliseconds, a day number up to 31 rolls over into the next month).  A date
  alone is UTC; a date and time with no offset is local time.  For any other string
  the standard leaves the result to the host; the model answers an invalid date.
\<close>

definition Date_parse :: "(int \<Rightarrow> bool \<Rightarrow> int) \<Rightarrow> string \<Rightarrow> time_value" where
  "Date_parse tza s =
     (case parse_year s of
        None \<Rightarrow> None
      | Some (y, r1) \<Rightarrow>
          (case parse_dash2 r1 of
             None \<Rightarrow> None
           | Some (m, r2) \<Rightarrow>
               (case (if r2 = r1 then Some (1, r2) else parse_dash2 r2) of
                  None \<Rightarrow> None
                | Some (d, r3) \<Rightarrow>
                    if m < 1 \<or> m > 12 \<or> d < 1 \<or> d > 31 then None
                    else (let day = days_from_civil y m 1 + (d - 1)
                          in case r3 of
                               [] \<Rightarrow> TimeClip (day * msPerDay)
                             | c # r4 \<Rightarrow>
                                 if c \<noteq> CHR ''T'' then None
                                 else (case parse_time r4 of
                                         None \<Rightarrow> None
                                       | Some (tod, off) \<Rightarrow>
                                           (let t = day * msPerDay + tod
                                            in case off of
                                                 Some ofs \<Rightarrow> TimeClip (t - ofs)
                                               | None \<Rightarrow> TimeClip (t - tza t False)))))))"

definition year_string :: "int \<Rightarrow> string" where
  "year_string y =
     (if 0 \<le> y \<and> y \<le> 9999 then padStart0 4 (show_nat (nat y))
      else (if y < 0 then CHR ''-'' else CHR ''+'') # padStart0 6 (show_nat (nat \<bar>y\<bar>)))"

text \<open>\<open>date.toISOString()\<close>: always UTC, always with milliseconds; it throws on an
  invalid date (\<open>None\<close>).\<close>

definition iso_string :: "int \<Rightarrow> string" where
  "iso_string t =
     (let (y, m, d) = civil_from_days (t div msPerDay);
          tod = t mod msPerDay
      in year_string y @ ''-'' @ padStart0 2 (show_nat (nat m)) @ ''-''
         @ padStart0 2 (show_nat (nat d)) @ ''T''
         @ padStart0 2 (show_nat (nat (tod div 3600000))) @ '':''
         @ padStart0 2 (show_nat (nat (tod mod 3600000 div 60000))) @ '':''
         @ padStart0 2 (show_nat (nat (tod mod 60000 div 1000))) @ ''.''
         @ padStart0 3 (show_nat (nat (tod mod 1000))) @ ''Z'')"

definition toISOString :: "time_value \<Rightarrow> string option" where
  "toISOString tv = map_option iso_string tv"

text \<open>The local calendar fields of a valid date: \<open>getFullYear\<close>, \<open>getMonth\<close> (from 0),
  \<open>getDate\<close>.\<close>

definition local_civil :: "(int \<Rightarrow> bool \<Rightarrow> int) \<Rightarrow> int \<Rightarrow> int \<times> int \<times> int" where
  "local_civil tza t = civil_from_days ((t + tza t True) div msPerDay)"

definition getFullYear :: "(int \<Rightarrow> bool \<Rightarrow> int) \<Rightarrow> int \<Rightarrow> int" where
  "getFullYear tza t = fst (local_civil tza t)"

definition getMonth :: "(int \<Rightarrow> bool \<Rightarrow> int) \<Rightarrow> int \<Rightarrow> int" where
  "getMonth tza t = fst (snd (local_civil tza t)) - 1"

definition getDate :: "(int \<Rightarrow> bool \<Rightarrow> int) \<Rightarrow> int \<Rightarrow> int" where
  "getDate tza t = snd (snd (local_civil tza t))"

section \<open>Measurement kinds (\<open>types.ts\<close>, \<open>constants.ts\<close>)\<close>

text \<open>
  The type \<open>SensorType\<close> is the union of six string literals; the constant object of
  the same name maps six member names to them.  Reading a member the object does not
  have gives \<open>undefined\<close>, here \<open>None\<close>.
\<close>

datatype SensorType = RESISTANCE | TEMP_WOOD | SOIL_MOISTURE | TEMP_AIR | HUMIDITY_AIR | BATTERY

fun SensorType_value :: "SensorType \<Rightarrow> string" where
  "SensorType_value RESISTANCE = ''resistance''"
| "SensorType_value TEMP_WOOD = ''temperature_wood''"
| "SensorType_value SOIL_MOISTURE = ''soil_moisture''"
| "SensorType_value TEMP_AIR = ''temperature_air''"
| "SensorType_value HUMIDITY_AIR = ''humidity_air''"
| "SensorType_value BATTERY = ''battery''"

definition SensorType_members :: "(string \<times> SensorType) list" where
  "SensorType_members =
     [(''RESISTANCE'', RESISTANCE), (''TEMP_WOOD'', TEMP_WOOD),
      (''SOIL_MOISTURE'', SOIL_MOISTURE), (''TEMP_AIR'', TEMP_AIR),
      (''HUMIDITY_AIR'', HUMIDITY_AIR), (''BATTERY'', BATTERY)]"

definition SensorType_get :: "string \<Rightarrow> SensorType option" where
  \<comment> \<open>\<open>SensorType.NAME\<close>\<close>
  "SensorType_get name = map_of SensorType_members name"

definition property_key :: "SensorType option \<Rightarrow> string" where
  \<comment> \<open>a value used as a property key: \<open>undefined\<close> becomes the key \<open>undefined\<close>\<close>
  "property_key k = (case k of None \<Rightarrow> ''undefined'' | Some t \<Rightarrow> SensorType_value t)"

definition ALL_SENSOR_TYPES :: "SensorType list" where
  "ALL_SENSOR_TYPES = [RESISTANCE, TEMP_WOOD, SOIL_MOISTURE, TEMP_AIR, HUMIDITY_AIR, BATTERY]"

definition SENSOR_TYPE_TO_INFLUX_FIELD :: "(SensorType \<times> string) list" where
  "SENSOR_TYPE_TO_INFLUX_FIELD =
     [(RESISTANCE, ''resistance''), (TEMP_WOOD, ''temperature''),
      (SOIL_MOISTURE, ''soil_moisture''), (TEMP_AIR, ''temperature_air''),
      (HUMIDITY_AIR, ''humidity_air''), (BATTERY, ''battery'')]"

definition SENSOR_TYPE_LABELS :: "(SensorType \<times> string) list" where
  \<comment> \<open>the ohm and degree signs are written as their UTF-8 bytes\<close>
  "SENSOR_TYPE_LABELS =
     [(RESISTANCE, ''Wood Resistance (k'' @ [CHR 0xCE, CHR 0xA9] @ '')''),
      (TEMP_WOOD, ''Wood Temperature ('' @ [CHR 0xC2, CHR 0xB0] @ ''C)''),
      (SOIL_MOISTURE, ''Soil Moisture (%)''),
      (TEMP_AIR, ''Air Temperature ('' @ [CHR 0xC2, CHR 0xB0] @ ''C)''),
      (HUMIDITY_AIR, ''Air Humidity (%)''),
      (BATTERY, ''Battery (V)'')]"

definition table_get :: "(SensorType \<times> string) list \<Rightarrow> SensorType option \<Rightarrow> string option" where
  \<comment> \<open>\<open>TABLE[sensorType]\<close>: the key \<open>undefined\<close> is in neither table\<close>
  "table_get tab k = (case k of None \<Rightarrow> None | Some t \<Rightarrow> map_of tab t)"

section \<open>\<open>parseInfluxCSV\<close>\<close>

record HistoricalDataPoint =
  date :: int
  original_timestamp :: string
  sensor_id :: string
  sensor_values :: "(string \<times> number) list"

text \<open>The first line that does not start with \<open>#\<close>, or \<open>-1\<close>.\<close>

function header_loop :: "string list \<Rightarrow> nat \<Rightarrow> int" where
  "header_loop lines i =
     (if i < length lines
      then (if \<not> startsWith (lines ! i) ''#'' then int i else header_loop lines (i + 1))
      else -1)"
  by pat_completeness auto
termination
  by (relation "measure (\<lambda>(lines, i). length lines - i)") auto

declare header_loop.simps [simp del]

text \<open>The body of the loop over the data lines: the point a line gives, if it gives one.\<close>

definition parse_row ::
  "(int \<Rightarrow> bool \<Rightarrow> int) \<Rightarrow> int \<Rightarrow> int \<Rightarrow> SensorType option \<Rightarrow> string \<Rightarrow> string
     \<Rightarrow> HistoricalDataPoint option" where
  "parse_row tza timeIndex valueIndex sensorType sensorMeasurementId line =
     (let values = split CHR '','' line
      in if int (length values) > max timeIndex valueIndex then
           (let date = Date_parse tza (values ! nat timeIndex);
                valueStr = values ! nat valueIndex;
                value = parseFloat valueStr
            in case date of
                 None \<Rightarrow> None
               | Some t \<Rightarrow>
                   if \<not> isNaN value
                   then Some \<lparr> date = t, original_timestamp = iso_string t,
                               sensor_id = sensorMeasurementId,
                               sensor_values = [(property_key sensorType, value)] \<rparr>
                   else None)
         else None)"

function rows_loop ::
  "(string \<Rightarrow> HistoricalDataPoint option) \<Rightarrow> string list \<Rightarrow> nat
     \<Rightarrow> HistoricalDataPoint list \<Rightarrow> HistoricalDataPoint list" where
  "rows_loop row lines i points =
     (if i < length lines
      then (case row (lines ! i) of
              Some point \<Rightarrow> rows_loop row lines (i + 1) (points @ [point])
            | None \<Rightarrow> rows_loop row lines (i + 1) points)
      else points)"
  by pat_completeness auto
termination
  by (relation "measure (\<lambda>(row, lines, i, points). length lines - i)") auto

declare rows_loop.simps [simp del]

text \<open>The function from its second statement on, on the lines of the trimmed text.\<close>

definition parse_lines ::
  "(int \<Rightarrow> bool \<Rightarrow> int) \<Rightarrow> string list \<Rightarrow> SensorType option \<Rightarrow> string
     \<Rightarrow> HistoricalDataPoint list" where
  "parse_lines tza lines sensorType sensorMeasurementId =
     (if length lines < 2 then []
      else (let headerLineIndex = header_loop lines 0
            in if headerLineIndex = -1 then []
               else (let headers = split CHR '','' (lines ! nat headerLineIndex);
                         timeIndex = indexOf headers ''_time'';
                         valueIndex = indexOf headers ''_value''
                     in if timeIndex = -1 \<or> valueIndex = -1 then []
                        else rows_loop
                               (parse_row tza timeIndex valueIndex sensorType sensorMeasurementId)
                               lines (nat headerLineIndex + 1) [])))"

definition parseInfluxCSV ::
  "(int \<Rightarrow> bool \<Rightarrow> int) \<Rightarrow> string \<Rightarrow> SensorType option \<Rightarrow> string
     \<Rightarrow> HistoricalDataPoint list" where
  "parseInfluxCSV tza csvText sensorType sensorMeasurementId =
     parse_lines tza (split CHR 0x0A (trim csvText)) sensorType sensorMeasurementId"


section \<open>Relative time\<close>

text \<open>\<open>formatDateToDDMMYY\<close> takes a string or a \<open>Date\<close>; a string is parsed first.\<close>

definition formatDateToDDMMYY :: "(int \<Rightarrow> bool \<Rightarrow> int) \<Rightarrow> string + time_value \<Rightarrow> string" where
  "formatDateToDDMMYY tza dateInput =
     (let date = (case dateInput of Inl str \<Rightarrow> Date_parse tza str | Inr d \<Rightarrow> d)
      in case date of
           None \<Rightarrow> ''Invalid Date''
         | Some t \<Rightarrow>
             (let D = padStart0 2 (show_int (getDate tza t));
                  M = padStart0 2 (show_int (getMonth tza t + 1));
                  YY = slice_last2 (show_int (getFullYear tza t))
              in D @ ''.'' @ M @ ''.'' @ YY))"

definition round_div :: "int \<Rightarrow> int \<Rightarrow> int" where
  \<comment> \<open>\<open>Math.round(a / b)\<close> for \<open>b > 0\<close>: to the nearest integer, a half goes up\<close>
  "round_div a b = (2 * a + b) div (2 * b)"

definition plural :: "int \<Rightarrow> string" where
  "plural n = (if n = 1 then [] else ''s'')"

text \<open>
  \<open>now\<close> is the time value that \<open>new Date()\<close> reads from the clock.  With an
  unparseable \<open>isoTimestamp\<close> every number below is \<open>NaN\<close>, every comparison fails
  and the last line is reached.
\<close>

definition formatRelativeTime :: "(int \<Rightarrow> bool \<Rightarrow> int) \<Rightarrow> int \<Rightarrow> string \<Rightarrow> string" where
  "formatRelativeTime tza now isoTimestamp =
     (let pastDate = Date_parse tza isoTimestamp
      in case pastDate of
           None \<Rightarrow> ''on '' @ formatDateToDDMMYY tza (Inr pastDate)
         | Some past \<Rightarrow>
             (let secondsAgo = round_div (now - past) 1000
              in if secondsAgo < 60 then ''just now''
                 else (let minutesAgo = secondsAgo div 60
                       in if minutesAgo < 60
                          then show_int minutesAgo @ '' minute'' @ plural minutesAgo @ '' ago''
                          else (let hoursAgo = minutesAgo div 60
                                in if hoursAgo < 24
                                   then show_int hoursAgo @ '' hour'' @ plural hoursAgo @ '' ago''
                                   else (let daysAgo = hoursAgo div 24
                                         in if daysAgo < 7
                                            then show_int daysAgo @ '' day'' @ plural daysAgo @ '' ago''
                                            else ''on '' @ formatDateToDDMMYY tza (Inr pastDate))))))"

section \<open>Fetching historical data\<close>

text \<open>The fixed configuration of \<open>constants.ts\<close> (URL, token, organisation, bucket).\<close>

record influx_config =
  INFLUXDB_URL :: string
  INFLUXDB_TOKEN :: string
  INFLUXDB_ORG :: string
  INFLUXDB_BUCKET :: string

record http_request =
  url :: string
  headers :: "(string \<times> string) list"
  body :: string

text \<open>The three pieces of component state that \<open>fetchHistoricalData\<close> writes.\<close>

record historical_state =
  influxHistoricalData :: "HistoricalDataPoint list"
  isHistoricalDataLoading :: bool
  historicalDataError :: "string option"

definition historical_init :: historical_state where
  "historical_init =
     \<lparr> influxHistoricalData = [], isHistoricalDataLoading = False, historicalDataError = None \<rparr>"

definition dq :: string where
  "dq = [CHR 0x22]"

definition nl :: string where
  "nl = [CHR 0x0A]"

definition fluxQuery :: "influx_config \<Rightarrow> string \<Rightarrow> string \<Rightarrow> string" where
  "fluxQuery cfg sensorMeasurementId influxField =
     nl @ ''      from(bucket: '' @ dq @ INFLUXDB_BUCKET cfg @ dq @ '')'' @ nl
     @ ''        |> range(start: -30d)'' @ nl
     @ ''        |> filter(fn: (r) => r['' @ dq @ ''_measurement'' @ dq @ ''] == ''
         @ dq @ sensorMeasurementId @ dq @ '')'' @ nl
     @ ''        |> filter(fn: (r) => r['' @ dq @ ''_field'' @ dq @ ''] == ''
         @ dq @ influxField @ dq @ '')'' @ nl
     @ ''        |> yield(name: '' @ dq @ ''mean'' @ dq @ '')'' @ nl
     @ ''    ''"

definition label_text :: "SensorType option \<Rightarrow> string" where
  \<comment> \<open>\<open>SENSOR_TYPE_LABELS[sensorType]\<close> inside a template string\<close>
  "label_text k = (case table_get SENSOR_TYPE_LABELS k of None \<Rightarrow> ''undefined'' | Some l \<Rightarrow> l)"

text \<open>
  The function up to its \<open>await fetch\<close>: the new state, and the request it sends, if
  it sends one.
\<close>

definition fetchHistoricalData_start ::
  "influx_config \<Rightarrow> string \<Rightarrow> SensorType option \<Rightarrow> historical_state
     \<Rightarrow> historical_state \<times> http_request option" where
  "fetchHistoricalData_start cfg sensorMeasurementId sensorType st =
     (if sensorMeasurementId = [] then
        (st\<lparr> influxHistoricalData := [],
             historicalDataError := Some ''No active sensor ID to fetch data for.'' \<rparr>, None)
      else (let influxField = table_get SENSOR_TYPE_TO_INFLUX_FIELD sensorType
            in if influxField = None \<or> influxField = Some [] then
                 (st\<lparr> influxHistoricalData := [],
                      historicalDataError :=
                        Some (''Configuration error: No InfluxDB field mapping for ''
                              @ label_text sensorType) \<rparr>, None)
               else
                 (st\<lparr> isHistoricalDataLoading := True, historicalDataError := None \<rparr>,
                  Some \<lparr> url = INFLUXDB_URL cfg @ ''?org='' @ INFLUXDB_ORG cfg,
                         headers = [(''Authorization'', ''Token '' @ INFLUXDB_TOKEN cfg),
                                    (''Content-Type'', ''application/vnd.flux''),
                                    (''Accept'', ''application/csv'')],
                         body = fluxQuery cfg sensorMeasurementId (the influxField) \<rparr>)))"

text \<open>
  What comes back: \<open>fetch\<close> rejects (with a message), or there is a response, whose
  body is read (\<open>Inr\<close>) or fails to be read (\<open>Inl\<close>, a message).
\<close>

datatype http_outcome =
  FetchRejected string
| Response bool nat string "string + string"

text \<open>The function from the \<open>await\<close> on, for the call with these arguments.\<close>

definition fetchHistoricalData_resolve ::
  "(int \<Rightarrow> bool \<Rightarrow> int) \<Rightarrow> string \<Rightarrow> SensorType option \<Rightarrow> http_outcome \<Rightarrow> historical_state
     \<Rightarrow> historical_state" where
  "fetchHistoricalData_resolve tza sensorMeasurementId sensorType outcome st =
     (let failed = (\<lambda>msg. st\<lparr> historicalDataError := Some msg, influxHistoricalData := [] \<rparr>);
          st' = (case outcome of
                   FetchRejected msg \<Rightarrow> failed msg
                 | Response ok status statusText text \<Rightarrow>
                     (case text of
                        Inl msg \<Rightarrow> failed msg
                      | Inr t \<Rightarrow>
                          if \<not> ok
                          then failed (''InfluxDB query failed: '' @ show_nat status @ '' ''
                                       @ statusText @ ''. '' @ t)
                          else st\<lparr> influxHistoricalData :=
                                      parseInfluxCSV tza t sensorType sensorMeasurementId \<rparr>))
      in st'\<lparr> isHistoricalDataLoading := False \<rparr>)"

text \<open>
  The component with its requests in flight.  Each call that reaches the \<open>await\<close>
  waits under its own number, in the order of issue; a response resumes the call it
  answers.
\<close>

record fetch_system =
  hist :: historical_state
  in_flight :: "(nat \<times> string \<times> SensorType option) list"
  issued :: nat

datatype fetch_event =
  Issue string "SensorType option"
| Resolve nat http_outcome

definition fetch_step ::
  "(int \<Rightarrow> bool \<Rightarrow> int) \<Rightarrow> influx_config \<Rightarrow> fetch_system \<Rightarrow> fetch_event \<Rightarrow> fetch_system" where
  "fetch_step tza cfg s ev =
     (case ev of
        Issue sensorMeasurementId sensorType \<Rightarrow>
          (case fetchHistoricalData_start cfg sensorMeasurementId sensorType (hist s) of
             (st, None) \<Rightarrow> s\<lparr> hist := st \<rparr>
           | (st, Some req) \<Rightarrow>
               s\<lparr> hist := st,
                  in_flight := in_flight s @ [(issued s, sensorMeasurementId, sensorType)],
                  issued := issued s + 1 \<rparr>)
      | Resolve n outcome \<Rightarrow>
          (case map_of (in_flight s) n of
             None \<Rightarrow> s
           | Some (sensorMeasurementId, sensorType) \<Rightarrow>
               s\<lparr> hist := fetchHistoricalData_resolve tza sensorMeasurementId sensorType
                             outcome (hist s),
                  in_flight := filter (\<lambda>r. fst r \<noteq> n) (in_flight s) \<rparr>))"

definition fetch_init :: fetch_system where
  "fetch_init = \<lparr> hist = historical_init, in_flight = [], issued = 0 \<rparr>"

definition fetch_run ::
  "(int \<Rightarrow> bool \<Rightarrow> int) \<Rightarrow> influx_config \<Rightarrow> fetch_event list \<Rightarrow> fetch_system" where
  "fetch_run tza cfg evs = foldl (fetch_step tza cfg) fetch_init evs"

text \<open>Truthiness of the two selections the effects test.\<close>

definition id_truthy :: "string option \<Rightarrow> bool" where
  "id_truthy a = (case a of None \<Rightarrow> False | Some i \<Rightarrow> i \<noteq> [])"

definition kind_truthy :: "SensorType option \<Rightarrow> bool" where
  "kind_truthy k = (case k of None \<Rightarrow> False | Some t \<Rightarrow> SensorType_value t \<noteq> [])"

definition selectedSensorForChart_init :: "SensorType option" where
  \<comment> \<open>\<open>useState<SensorType>(SensorType.STRESS)\<close>\<close>
  "selectedSensorForChart_init = SensorType_get ''STRESS''"

text \<open>The effect that fetches when the sensor or the kind changes.\<close>

definition fetch_effect ::
  "influx_config \<Rightarrow> string option \<Rightarrow> SensorType option \<Rightarrow> historical_state
     \<Rightarrow> historical_state \<times> http_request option" where
  "fetch_effect cfg activeSensorIdForChart selectedSensorForChart st =
     (if id_truthy activeSensorIdForChart \<and> kind_truthy selectedSensorForChart
      then fetchHistoricalData_start cfg (the activeSensorIdForChart) selectedSensorForChart st
      else if \<not> id_truthy activeSensorIdForChart
      then (st\<lparr> influxHistoricalData := [] \<rparr>, None)
      else (st, None))"

section \<open>The auto-update timer\<close>

text \<open>
  The host's interval timers, each with the arguments its callback will pass to
  \<open>fetchHistoricalData\<close>, and the component's reference to the one it armed.
\<close>

record scheduler =
  autoUpdateIntervalRef :: "nat option"
  timers :: "(nat \<times> string \<times> SensorType option) list"
  next_timer :: nat

definition clearInterval :: "nat \<Rightarrow> scheduler \<Rightarrow> scheduler" where
  "clearInterval h s = s\<lparr> timers := filter (\<lambda>t. fst t \<noteq> h) (timers s) \<rparr>"

definition setInterval :: "string \<times> SensorType option \<Rightarrow> scheduler \<Rightarrow> nat \<times> scheduler" where
  "setInterval cb s =
     (next_timer s, s\<lparr> timers := timers s @ [(next_timer s, cb)], next_timer := next_timer s + 1 \<rparr>)"

definition disarm :: "scheduler \<Rightarrow> scheduler" where
  \<comment> \<open>\<open>if (ref.current) { clearInterval(ref.current); ref.current = null; }\<close>\<close>
  "disarm s =
     (case autoUpdateIntervalRef s of
        None \<Rightarrow> s
      | Some h \<Rightarrow> (clearInterval h s)\<lparr> autoUpdateIntervalRef := None \<rparr>)"

definition auto_update_effect :: "bool \<times> string option \<times> SensorType option \<Rightarrow> scheduler \<Rightarrow> scheduler" where
  "auto_update_effect d s =
     (case d of (autoUpdateHistoricalData, activeSensorIdForChart, selectedSensorForChart) \<Rightarrow>
        (let s1 = disarm s
         in if autoUpdateHistoricalData \<and> id_truthy activeSensorIdForChart
               \<and> kind_truthy selectedSensorForChart
            then (case setInterval (the activeSensorIdForChart, selectedSensorForChart) s1 of
                    (h, s2) \<Rightarrow> s2\<lparr> autoUpdateIntervalRef := Some h \<rparr>)
            else s1))"









section \<open>Live data: the message handler\<close>

text \<open>
  What \<open>JSON.parse\<close> gives: a JSON value.  An object is the list of its members as
  the text has them; of two members with one key the later is the one kept, so a
  property is looked up from the end.
\<close>

datatype jsval =
  JUndefined
| JNull
| JBool bool
| JNumber number
| JString string
| JArray "jsval list"
| JObject "(string \<times> jsval) list"

definition truthy :: "jsval \<Rightarrow> bool" where
  "truthy v =
     (case v of
        JUndefined \<Rightarrow> False
      | JNull \<Rightarrow> False
      | JBool b \<Rightarrow> b
      | JNumber n \<Rightarrow> n \<noteq> Finite 0 \<and> n \<noteq> NaN
      | JString s \<Rightarrow> s \<noteq> []
      | JArray xs \<Rightarrow> True
      | JObject ms \<Rightarrow> True)"

definition is_number :: "jsval \<Rightarrow> bool" where
  \<comment> \<open>\<open>typeof v === 'number'\<close>\<close>
  "is_number v = (case v of JNumber n \<Rightarrow> True | _ \<Rightarrow> False)"

definition get_prop :: "jsval \<Rightarrow> string \<Rightarrow> jsval" where
  \<comment> \<open>\<open>v.name\<close> for a name that no prototype defines, on a value other than \<open>null\<close>\<close>
  "get_prop v name =
     (case v of
        JObject ms \<Rightarrow> (case map_of (rev ms) name of None \<Rightarrow> JUndefined | Some x \<Rightarrow> x)
      | _ \<Rightarrow> JUndefined)"

definition indices :: "nat \<Rightarrow> string list" where
  "indices n = map show_nat [0..<n]"

definition entries :: "jsval \<Rightarrow> (string \<times> jsval) list" where
  \<comment> \<open>\<open>Object.entries(v)\<close> for a truthy \<open>v\<close>: a string and an array have their indices\<close>
  "entries v =
     (case v of
        JObject ms \<Rightarrow> ms
      | JArray xs \<Rightarrow> zip (indices (length xs)) xs
      | JString s \<Rightarrow> zip (indices (length s)) (map (\<lambda>c. JString [c]) s)
      | _ \<Rightarrow> [])"

text \<open>
  The live data is one plain object: its own properties.  Assigning to the key
  \<open>__proto__\<close> goes to the setter every plain object inherits and adds no property.
\<close>

type_synonym AppLiveData = "string \<rightharpoonup> jsval"

definition set_prop :: "AppLiveData \<Rightarrow> string \<Rightarrow> jsval \<Rightarrow> AppLiveData" where
  "set_prop obj key v = (if key = ''__proto__'' then obj else obj(key \<mapsto> v))"

definition sensorTypeFilters :: "(string \<times> bool) list" where
  \<comment> \<open>\<open>useState<Record<string, boolean>>({})\<close>, never set\<close>
  "sensorTypeFilters = []"

definition Date_of_number :: "number \<Rightarrow> time_value" where
  \<comment> \<open>\<open>new Date(n)\<close>: the integer part of a finite number in range\<close>
  "Date_of_number n =
     (case n of
        Finite q \<Rightarrow>
          if \<bar>q\<bar> > 8640000000000000 then None
          else Some (if q < 0 then \<lceil>q\<rceil> else \<lfloor>q\<rfloor>)
      | _ \<Rightarrow> None)"

definition times1000 :: "number \<Rightarrow> number" where
  "times1000 n = (case n of Finite q \<Rightarrow> Finite (q * 1000) | _ \<Rightarrow> n)"

text \<open>
  The function given to \<open>setLiveData\<close>.  \<open>toISOString\<close> is called in it and throws
  a \<open>RangeError\<close> on an invalid date: \<open>None\<close>.
\<close>

definition live_updater ::
  "number \<Rightarrow> jsval \<Rightarrow> jsval \<Rightarrow> jsval \<Rightarrow> AppLiveData option \<Rightarrow> AppLiveData option" where
  "live_updater timestamp effectiveSensorId name payloadFields prevLiveData =
     (let messageTimestamp = Date_of_number (times1000 timestamp)
      in case toISOString messageTimestamp of
           None \<Rightarrow> None
         | Some isoText \<Rightarrow>
             (let updatedLiveData =
                    (case prevLiveData of None \<Rightarrow> Map.empty | Some p \<Rightarrow> p)
                      (''last_updated_timestamp'' \<mapsto> JString isoText,
                       ''last_updated_sensor_id'' \<mapsto> effectiveSensorId,
                       ''raw_message_name'' \<mapsto> name)
              in Some (fold (\<lambda>(key, v) obj.
                               if map_of sensorTypeFilters key \<noteq> Some False
                               then set_prop obj key v else obj)
                            (entries payloadFields) updatedLiveData)))"

datatype render_error = RangeError

definition third_segment :: "string \<Rightarrow> jsval" where
  \<comment> \<open>\<open>topic.split('/')[2]\<close>\<close>
  "third_segment topic =
     (let parts = split CHR ''/'' topic
      in if length parts > 2 then JString (parts ! 2) else JUndefined)"

definition accepted :: "string \<Rightarrow> jsval \<Rightarrow> bool" where
  \<comment> \<open>the negation of the handler's test for an early return\<close>
  "accepted topic rawPayload =
     (\<not> (\<not> truthy (get_prop rawPayload ''fields'')
         \<or> \<not> is_number (get_prop rawPayload ''timestamp'')
         \<or> (\<not> truthy (get_prop rawPayload ''name'') \<and> \<not> truthy (third_segment topic))))"

text \<open>
  The handler on a topic and a message.  The message is given as what \<open>JSON.parse\<close>
  makes of it, \<open>None\<close> when that throws.  Reading a property of \<open>null\<close> throws too;
  both are caught and ignored.  The result is the new live data, or the error that
  the state update dies of.
\<close>

definition on_message ::
  "string \<Rightarrow> jsval option \<Rightarrow> AppLiveData option \<Rightarrow> render_error + AppLiveData option" where
  "on_message topic message prevLiveData =
     (case message of
        None \<Rightarrow> Inr prevLiveData
      | Some rawPayload \<Rightarrow>
          if rawPayload = JNull \<or> rawPayload = JUndefined then Inr prevLiveData
          else if \<not> accepted topic rawPayload then Inr prevLiveData
          else (let topicParts = split CHR ''/'' topic;
                    name = get_prop rawPayload ''name'';
                    effectiveSensorId =
                      (if truthy name then name
                       else if length topicParts > 2 then JString (topicParts ! 2)
                       else JString ''unknown_sensor'')
                in case live_updater
                          (case get_prop rawPayload ''timestamp'' of JNumber n \<Rightarrow> n | _ \<Rightarrow> NaN)
                          effectiveSensorId name (get_prop rawPayload ''fields'') prevLiveData of
                     None \<Rightarrow> Inl RangeError
                   | Some updated \<Rightarrow> Inr (Some updated)))"

text \<open>
  A valid message: the handler accepts it, and its timestamp, in milliseconds, is a
  time value a \<open>Date\<close> can hold, so that the state update does not throw.
\<close>

definition valid_message :: "string \<Rightarrow> jsval \<Rightarrow> bool" where
  "valid_message topic rawPayload =
     (accepted topic rawPayload
      \<and> Date_of_number
            (times1000 (case get_prop rawPayload ''timestamp'' of JNumber n \<Rightarrow> n | _ \<Rightarrow> NaN))
          \<noteq> None)"

fun on_messages ::
  "(string \<times> jsval option) list \<Rightarrow> AppLiveData option \<Rightarrow> render_error + AppLiveData option" where
  "on_messages [] live = Inr live"
| "on_messages ((topic, message) # rest) live =
     (case on_message topic message live of
        Inl e \<Rightarrow> Inl e
      | Inr live' \<Rightarrow> on_messages rest live')"

subsection \<open>What a sequence of messages carried\<close>

definition field_names :: "jsval option \<Rightarrow> string set" where
  "field_names message =
     (case message of
        None \<Rightarrow> {}
      | Some rawPayload \<Rightarrow> fst ` set (entries (get_prop rawPayload ''fields'')))"

definition field_value :: "jsval option \<Rightarrow> string \<Rightarrow> jsval option" where
  "field_value message key =
     (case message of
        None \<Rightarrow> None
      | Some rawPayload \<Rightarrow> map_of (rev (entries (get_prop rawPayload ''fields''))) key)"

text \<open>The value of a field in the last message of the sequence that carried it.\<close>

fun latest_value :: "(string \<times> jsval option) list \<Rightarrow> string \<Rightarrow> jsval option" where
  "latest_value [] key = None"
| "latest_value ((topic, message) # rest) key =
     (case latest_value rest key of
        Some v \<Rightarrow> Some v
      | None \<Rightarrow> field_value message key)"

definition provenance_keys :: "string set" where
  "provenance_keys = {''last_updated_timestamp'', ''last_updated_sensor_id'', ''raw_message_name''}"

definition reserved_keys :: "string set" where
  "reserved_keys = insert ''__proto__'' provenance_keys"

definition live_get :: "AppLiveData option \<Rightarrow> string \<Rightarrow> jsval option" where
  \<comment> \<open>the property of the live data, none while the live data is \<open>null\<close>\<close>
  "live_get live key = (case live of None \<Rightarrow> None | Some obj \<Rightarrow> obj key)"

section \<open>Inputs for the examples\<close>

text \<open>A host whose local time is UTC, and a configuration (the token is not reproduced).\<close>

definition utc :: "int \<Rightarrow> bool \<Rightarrow> int" where
  "utc t is_utc = 0"

definition example_config :: influx_config where
  "example_config =
     \<lparr> INFLUXDB_URL = ''https://influx.thws.education/api/v2/query'',
       INFLUXDB_TOKEN = ''token'',
       INFLUXDB_ORG = ''cps-lab'',
       INFLUXDB_BUCKET = ''lorapub30d'' \<rparr>"

section \<open>Properties of \<open>parseInfluxCSV\<close>\<close>

text \<open>
  C7.  The text of two comment lines, the header \<open>_time,_value\<close> and the data line
  \<open>2024-01-01T00:00:00Z,12.5\<close> parses to exactly one point.  Its date is the time
  value 1704067200000, which is 2024-01-01T00:00:00Z, and its value is 12.5, whatever
  the host's time zone, the measurement kind and the sensor id.
\<close>

theorem C7_example_parse:
  "parseInfluxCSV tza
     (''#comment'' @ [CHR 0x0A] @ ''#comment'' @ [CHR 0x0A] @ ''_time,_value'' @ [CHR 0x0A]
      @ ''2024-01-01T00:00:00Z,12.5'')
     sensorType sensorMeasurementId
   = [\<lparr> date = 1704067200000,
        original_timestamp = ''2024-01-01T00:00:00.000Z'',
        sensor_id = sensorMeasurementId,
        sensor_values = [(property_key sensorType, Finite (25 / 2))] \<rparr>]"
  by code_simp

lemma rows_loop_map_filter:
  "rows_loop row lines i points = points @ List.map_filter row (drop i lines)"
proof (induction row lines i points rule: rows_loop.induct)
  case (1 row lines i points)
  show ?case
  proof (cases "i < length lines")
    case False
    then show ?thesis
      by (simp add: rows_loop.simps [of row lines i points] List.map_filter_simps)
  next
    case True
    then have d: "drop i lines = lines ! i # drop (i + 1) lines"
      by (simp add: Cons_nth_drop_Suc)
    show ?thesis
    proof (cases "row (lines ! i)")
      case None
      with True "1.IH"(1) [OF True None] d show ?thesis
        by (simp add: rows_loop.simps [of row lines i points] List.map_filter_simps)
    next
      case (Some point)
      with True "1.IH"(2) [OF True Some] d show ?thesis
        by (simp add: rows_loop.simps [of row lines i points] List.map_filter_simps)
    qed
  qed
qed

lemma header_loop_comments:
  assumes "list_all (\<lambda>l. startsWith l ''#'') comments" and "\<not> startsWith header ''#''"
  shows "i \<le> length comments \<Longrightarrow> header_loop (comments @ header # rows) i = int (length comments)"
proof (induction "length comments - i" arbitrary: i)
  case 0
  then have "i = length comments" by simp
  with assms(2) show ?case
    by (simp add: header_loop.simps [of _ "length comments"])
next
  case (Suc n)
  then have lt: "i < length comments" by simp
  with assms(1) have "startsWith (comments ! i) ''#''"
    by (simp add: list_all_length)
  with lt have "header_loop (comments @ header # rows) i
                = header_loop (comments @ header # rows) (i + 1)"
    by (simp add: header_loop.simps [of _ i] nth_append)
  also have "\<dots> = int (length comments)"
    using Suc lt by (intro Suc.hyps(1)) simp_all
  finally show ?case .
qed

lemma parse_lines_rows:
  assumes "list_all (\<lambda>l. startsWith l ''#'') comments" and "\<not> startsWith header ''#''"
    and "timeIndex = indexOf (split CHR '','' header) ''_time''"
    and "valueIndex = indexOf (split CHR '','' header) ''_value''"
    and "timeIndex \<noteq> -1" and "valueIndex \<noteq> -1"
  shows "parse_lines tza (comments @ header # rows) sensorType sensorMeasurementId
         = List.map_filter
             (parse_row tza timeIndex valueIndex sensorType sensorMeasurementId) rows"
proof (cases "length (comments @ header # rows) < 2")
  case True
  then have "rows = []" by (cases rows) simp_all
  with True show ?thesis
    by (simp add: parse_lines_def List.map_filter_simps)
next
  case False
  have h: "header_loop (comments @ header # rows) 0 = int (length comments)"
    using header_loop_comments [OF assms(1,2), of 0 rows] by simp
  from False show ?thesis
    using assms(3-6)
    by (simp add: parse_lines_def h rows_loop_map_filter Let_def)
qed










text \<open>
  C4 (amended).  The points are those of the data lines that give one, one point for
  each, in the order of the lines.  A point carries the parsed date of its line's time
  column, the sensor id given, and the number of its line's value column under the key
  of the measurement kind given.  Its \<open>original_timestamp\<close> is the ISO rendering
  of the parsed date (\<open>toISOString\<close>), not the text of the time column.
\<close>

theorem C4_points_follow_rows:
  assumes "split CHR 0x0A (trim csvText) = comments @ header # rows"
    and "list_all (\<lambda>l. startsWith l ''#'') comments" and "\<not> startsWith header ''#''"
    and "timeIndex = indexOf (split CHR '','' header) ''_time''"
    and "valueIndex = indexOf (split CHR '','' header) ''_value''"
    and "timeIndex \<noteq> -1" and "valueIndex \<noteq> -1"
  shows "parseInfluxCSV tza csvText sensorType sensorMeasurementId
         = List.map_filter
             (parse_row tza timeIndex valueIndex sensorType sensorMeasurementId) rows
       \<and> (\<forall>line point.
             parse_row tza timeIndex valueIndex sensorType sensorMeasurementId line = Some point
             \<longrightarrow> Date_parse tza (split CHR '','' line ! nat timeIndex) = Some (date point)
                 \<and> original_timestamp point = iso_string (date point)
                 \<and> sensor_id point = sensorMeasurementId
                 \<and> sensor_values point
                     = [(property_key sensorType,
                         parseFloat (split CHR '','' line ! nat valueIndex))]
                 \<and> \<not> isNaN (parseFloat (split CHR '','' line ! nat valueIndex)))"
proof (intro conjI allI impI)
  show "parseInfluxCSV tza csvText sensorType sensorMeasurementId
        = List.map_filter
            (parse_row tza timeIndex valueIndex sensorType sensorMeasurementId) rows"
    unfolding parseInfluxCSV_def assms(1)
    by (rule parse_lines_rows [OF assms(2-7)])
next
  fix line point
  assume "parse_row tza timeIndex valueIndex sensorType sensorMeasurementId line = Some point"
  then have p: "Date_parse tza (split CHR '','' line ! nat timeIndex) = Some (date point)
       \<and> original_timestamp point = iso_string (date point)
       \<and> sensor_id point = sensorMeasurementId
       \<and> sensor_values point
           = [(property_key sensorType, parseFloat (split CHR '','' line ! nat valueIndex))]
       \<and> \<not> isNaN (parseFloat (split CHR '','' line ! nat valueIndex))"
    by (auto simp: parse_row_def Let_def split: if_splits option.splits)
  from p show "Date_parse tza (split CHR '','' line ! nat timeIndex) = Some (date point)" by simp
  from p show "original_timestamp point = iso_string (date point)" by simp
  from p show "sensor_id point = sensorMeasurementId" by simp
  from p show "sensor_values point
           = [(property_key sensorType, parseFloat (split CHR '','' line ! nat valueIndex))]" by simp
  from p show "\<not> isNaN (parseFloat (split CHR '','' line ! nat valueIndex))" by simp
qed

text \<open>
  The claim as stated fails: for the time column \<open>2024-01-01T00:00:00Z\<close> the point's
  \<open>original_timestamp\<close> is not that text (it is \<open>2024-01-01T00:00:00.000Z\<close>).
\<close>

theorem C4_original_timestamp_counterexample:
  "map original_timestamp
     (parseInfluxCSV utc (''_time,_value'' @ [CHR 0x0A] @ ''2024-01-01T00:00:00Z,12.5'')
        (Some RESISTANCE) ''s1'')
   \<noteq> [''2024-01-01T00:00:00Z'']"
  by code_simp

lemma order_lines:
  "split CHR 0x0A (trim (''#datatype'' @ [CHR 0x0A] @ ''_value,_time'' @ [CHR 0x0A]
                          @ ''7,2024-01-02T00:00:00Z'' @ [CHR 0x0A]
                          @ ''12.5,2024-01-01T00:00:00Z'' @ [CHR 0x0A]
                          @ ''12.5,2024-01-01T00:00:00Z''))
   = [''#datatype''] @ ''_value,_time''
     # [''7,2024-01-02T00:00:00Z'', ''12.5,2024-01-01T00:00:00Z'', ''12.5,2024-01-01T00:00:00Z'']"
  by code_simp

lemma order_header:
  "list_all (\<lambda>l. startsWith l ''#'') [''#datatype'']"
  "\<not> startsWith ''_value,_time'' ''#''"
  "indexOf (split CHR '','' ''_value,_time'') ''_time'' = 1"
  "indexOf (split CHR '','' ''_value,_time'') ''_value'' = 0"
  by code_simp+

lemma order_rows:
  "parse_row utc 1 0 (Some TEMP_AIR) ''s1'' ''7,2024-01-02T00:00:00Z''
   = Some \<lparr> date = 1704153600000, original_timestamp = ''2024-01-02T00:00:00.000Z'',
             sensor_id = ''s1'', sensor_values = [(''temperature_air'', Finite 7)] \<rparr>"
  "parse_row utc 1 0 (Some TEMP_AIR) ''s1'' ''12.5,2024-01-01T00:00:00Z''
   = Some \<lparr> date = 1704067200000, original_timestamp = ''2024-01-01T00:00:00.000Z'',
             sensor_id = ''s1'', sensor_values = [(''temperature_air'', Finite (25 / 2))] \<rparr>"
  by code_simp+

theorem C4_points_follow_rows_witness:
  "parseInfluxCSV utc
     (''#datatype'' @ [CHR 0x0A] @ ''_value,_time'' @ [CHR 0x0A]
      @ ''7,2024-01-02T00:00:00Z'' @ [CHR 0x0A]
      @ ''12.5,2024-01-01T00:00:00Z'' @ [CHR 0x0A]
      @ ''12.5,2024-01-01T00:00:00Z'')
     (Some TEMP_AIR) ''s1''
   = [\<lparr> date = 1704153600000, original_timestamp = ''2024-01-02T00:00:00.000Z'',
        sensor_id = ''s1'', sensor_values = [(''temperature_air'', Finite 7)] \<rparr>,
      \<lparr> date = 1704067200000, original_timestamp = ''2024-01-01T00:00:00.000Z'',
        sensor_id = ''s1'', sensor_values = [(''temperature_air'', Finite (25 / 2))] \<rparr>,
      \<lparr> date = 1704067200000, original_timestamp = ''2024-01-01T00:00:00.000Z'',
        sensor_id = ''s1'', sensor_values = [(''temperature_air'', Finite (25 / 2))] \<rparr>]"
  using C4_points_follow_rows
          [OF order_lines order_header(1) order_header(2) order_header(3) [symmetric]
              order_header(4) [symmetric], of utc "Some TEMP_AIR" "''s1''"]
  by (simp add: order_rows List.map_filter_simps)

section \<open>Properties of \<open>formatRelativeTime\<close>\<close>

lemma show_int_1: "show_int 1 = ''1''"
  by (simp add: show_int_def show_nat.simps digit_char_def)

lemma rel_secs:
  assumes "Date_parse tza isoTimestamp = Some past" and "now - past = d"
  shows "formatRelativeTime tza now isoTimestamp =
     (let secondsAgo = round_div d 1000
      in if secondsAgo < 60 then ''just now''
         else (let minutesAgo = secondsAgo div 60
               in if minutesAgo < 60
                  then show_int minutesAgo @ '' minute'' @ plural minutesAgo @ '' ago''
                  else (let hoursAgo = minutesAgo div 60
                        in if hoursAgo < 24
                           then show_int hoursAgo @ '' hour'' @ plural hoursAgo @ '' ago''
                           else (let daysAgo = hoursAgo div 24
                                 in if daysAgo < 7
                                    then show_int daysAgo @ '' day'' @ plural daysAgo @ '' ago''
                                    else ''on '' @ formatDateToDDMMYY tza (Inr (Some past))))))"
  unfolding formatRelativeTime_def using assms by simp

lemma DDMMYY_valid:
  "formatDateToDDMMYY tza (Inr (Some t))
   = padStart0 2 (show_int (getDate tza t)) @ ''.''
     @ padStart0 2 (show_int (getMonth tza t + 1)) @ ''.''
     @ slice_last2 (show_int (getFullYear tza t))"
  by (simp add: formatDateToDDMMYY_def)

text \<open>
  C9.  For a timestamp that parses, an age of 45 seconds gives \<open>just now\<close>, 90 seconds
  \<open>1 minute ago\<close>, 3700 seconds \<open>1 hour ago\<close>, and 8 days the word \<open>on\<close> and the
  local calendar date of the timestamp as day, month and two-digit year with dots
  between them.  The age is the clock's time value less the timestamp's.
\<close>

theorem C9_relative_time:
  assumes "Date_parse tza isoTimestamp = Some past"
  shows "(now - past = 45 * 1000 \<longrightarrow> formatRelativeTime tza now isoTimestamp = ''just now'')
       \<and> (now - past = 90 * 1000 \<longrightarrow> formatRelativeTime tza now isoTimestamp = ''1 minute ago'')
       \<and> (now - past = 3700 * 1000 \<longrightarrow> formatRelativeTime tza now isoTimestamp = ''1 hour ago'')
       \<and> (now - past = 8 * msPerDay \<longrightarrow>
            formatRelativeTime tza now isoTimestamp
            = ''on '' @ padStart0 2 (show_int (getDate tza past)) @ ''.''
              @ padStart0 2 (show_int (getMonth tza past + 1)) @ ''.''
              @ slice_last2 (show_int (getFullYear tza past)))"
proof (intro conjI impI)
  assume "now - past = 45 * 1000"
  then show "formatRelativeTime tza now isoTimestamp = ''just now''"
    by (simp add: rel_secs [OF assms] round_div_def)
next
  assume "now - past = 90 * 1000"
  then show "formatRelativeTime tza now isoTimestamp = ''1 minute ago''"
    by (simp add: rel_secs [OF assms] round_div_def plural_def show_int_1)
next
  assume "now - past = 3700 * 1000"
  then show "formatRelativeTime tza now isoTimestamp = ''1 hour ago''"
    by (simp add: rel_secs [OF assms] round_div_def plural_def show_int_1)
next
  assume "now - past = 8 * msPerDay"
  then show "formatRelativeTime tza now isoTimestamp
            = ''on '' @ padStart0 2 (show_int (getDate tza past)) @ ''.''
              @ padStart0 2 (show_int (getMonth tza past + 1)) @ ''.''
              @ slice_last2 (show_int (getFullYear tza past))"
    by (simp add: rel_secs [OF assms] round_div_def msPerDay_def DDMMYY_valid)
qed

lemma parse_2024: "Date_parse utc ''2024-01-01T00:00:00.000Z'' = Some 1704067200000"
  by code_simp

lemma fields_2024:
  "padStart0 2 (show_int (getDate utc 1704067200000)) = ''01''"
  "padStart0 2 (show_int (getMonth utc 1704067200000 + 1)) = ''01''"
  "slice_last2 (show_int (getFullYear utc 1704067200000)) = ''24''"
  by code_simp+

theorem C9_relative_time_witness:
  "Date_parse utc ''2024-01-01T00:00:00.000Z'' = Some 1704067200000
   \<and> formatRelativeTime utc (1704067200000 + 45 * 1000) ''2024-01-01T00:00:00.000Z'' = ''just now''
   \<and> formatRelativeTime utc (1704067200000 + 90 * 1000) ''2024-01-01T00:00:00.000Z'' = ''1 minute ago''
   \<and> formatRelativeTime utc (1704067200000 + 3700 * 1000) ''2024-01-01T00:00:00.000Z'' = ''1 hour ago''
   \<and> formatRelativeTime utc (1704067200000 + 8 * 86400000) ''2024-01-01T00:00:00.000Z'' = ''on 01.01.24''"
  using C9_relative_time [OF parse_2024, of "1704067200000 + 45 * 1000"]
        C9_relative_time [OF parse_2024, of "1704067200000 + 90 * 1000"]
        C9_relative_time [OF parse_2024, of "1704067200000 + 3700 * 1000"]
        C9_relative_time [OF parse_2024, of "1704067200000 + 8 * 86400000"]
  by (simp add: parse_2024 fields_2024 msPerDay_def)

section \<open>Properties of \<open>fetchHistoricalData\<close>\<close>

text \<open>
  C6.  A call with an empty sensor id, or with a measurement kind that has no entry in
  \<open>SENSOR_TYPE_TO_INFLUX_FIELD\<close>, stores an error text and the empty result and
  returns before the request: nothing is sent and no call is left in flight.
\<close>

theorem C6_fetch_fails_fast:
  assumes "sensorMeasurementId = [] \<or> table_get SENSOR_TYPE_TO_INFLUX_FIELD sensorType = None"
  shows "fetchHistoricalData_start cfg sensorMeasurementId sensorType st
         = (st\<lparr> influxHistoricalData := [],
                 historicalDataError :=
                   Some (if sensorMeasurementId = []
                         then ''No active sensor ID to fetch data for.''
                         else ''Configuration error: No InfluxDB field mapping for ''
                              @ label_text sensorType) \<rparr>,
            None)
       \<and> in_flight (fetch_step tza cfg s (Issue sensorMeasurementId sensorType)) = in_flight s
       \<and> issued (fetch_step tza cfg s (Issue sensorMeasurementId sensorType)) = issued s"
proof -
  have start: "fetchHistoricalData_start cfg sensorMeasurementId sensorType st'
         = (st'\<lparr> influxHistoricalData := [],
                 historicalDataError :=
                   Some (if sensorMeasurementId = []
                         then ''No active sensor ID to fetch data for.''
                         else ''Configuration error: No InfluxDB field mapping for ''
                              @ label_text sensorType) \<rparr>,
            None)" for st'
    using assms by (auto simp: fetchHistoricalData_start_def Let_def)
  show ?thesis
    by (simp add: start fetch_step_def)
qed

theorem C6_fetch_fails_fast_witness:
  "fetchHistoricalData_start example_config [] (Some RESISTANCE) historical_init
     = (historical_init\<lparr> historicalDataError := Some ''No active sensor ID to fetch data for.'' \<rparr>,
        None)
   \<and> table_get SENSOR_TYPE_TO_INFLUX_FIELD None = None
   \<and> fetchHistoricalData_start example_config ''s1'' None historical_init
     = (historical_init\<lparr> historicalDataError :=
          Some ''Configuration error: No InfluxDB field mapping for undefined'' \<rparr>, None)"
  using C6_fetch_fails_fast [of "[]" "Some RESISTANCE" example_config historical_init]
        C6_fetch_fails_fast [of "''s1''" None example_config historical_init]
  by (simp add: table_get_def label_text_def historical_init_def)

lemma resolve_ok:
  "fetchHistoricalData_resolve tza sensorMeasurementId sensorType
     (Response True status statusText (Inr t)) st
   = st\<lparr> influxHistoricalData := parseInfluxCSV tza t sensorType sensorMeasurementId,
          isHistoricalDataLoading := False \<rparr>"
  by (simp add: fetchHistoricalData_resolve_def)

lemma resolve_not_ok:
  "fetchHistoricalData_resolve tza sensorMeasurementId sensorType
     (Response False status statusText (Inr t)) st
   = st\<lparr> historicalDataError :=
            Some (''InfluxDB query failed: '' @ show_nat status @ '' '' @ statusText @ ''. '' @ t),
          influxHistoricalData := [], isHistoricalDataLoading := False \<rparr>"
  by (simp add: fetchHistoricalData_resolve_def)

lemma resolve_rejected:
  "fetchHistoricalData_resolve tza sensorMeasurementId sensorType (FetchRejected msg) st
   = st\<lparr> historicalDataError := Some msg, influxHistoricalData := [],
          isHistoricalDataLoading := False \<rparr>"
  by (simp add: fetchHistoricalData_resolve_def)

lemma resolve_unreadable:
  "fetchHistoricalData_resolve tza sensorMeasurementId sensorType
     (Response ok status statusText (Inl msg)) st
   = st\<lparr> historicalDataError := Some msg, influxHistoricalData := [],
          isHistoricalDataLoading := False \<rparr>"
  by (simp add: fetchHistoricalData_resolve_def)

lemma step_resolve:
  "map_of (in_flight s) n = Some (sensorMeasurementId, sensorType)
   \<Longrightarrow> hist (fetch_step tza cfg s (Resolve n outcome))
       = fetchHistoricalData_resolve tza sensorMeasurementId sensorType outcome (hist s)"
  by (simp add: fetch_step_def)

text \<open>
  C1 (amended).  No response is discarded.  Whenever the response to a call in flight
  arrives, whatever has been issued since, the call goes on: a successful response
  replaces the stored result by its parsed points and leaves the stored error as it
  is; a response that is not \<open>ok\<close>, a rejected request and a response whose body
  cannot be read store their error text and the empty result.  The state \<open>s\<close> is any
  state, so also one in which later calls are in flight or have finished.
\<close>

theorem C1_every_response_is_applied:
  assumes "map_of (in_flight s) n = Some (sensorMeasurementId, sensorType)"
  shows "influxHistoricalData
           (hist (fetch_step tza cfg s (Resolve n (Response True status statusText (Inr t)))))
         = parseInfluxCSV tza t sensorType sensorMeasurementId
       \<and> historicalDataError
           (hist (fetch_step tza cfg s (Resolve n (Response True status statusText (Inr t)))))
         = historicalDataError (hist s)
       \<and> influxHistoricalData
           (hist (fetch_step tza cfg s (Resolve n (Response False status statusText (Inr t)))))
         = []
       \<and> historicalDataError
           (hist (fetch_step tza cfg s (Resolve n (Response False status statusText (Inr t)))))
         = Some (''InfluxDB query failed: '' @ show_nat status @ '' '' @ statusText @ ''. '' @ t)
       \<and> influxHistoricalData (hist (fetch_step tza cfg s (Resolve n (FetchRejected msg)))) = []
       \<and> historicalDataError (hist (fetch_step tza cfg s (Resolve n (FetchRejected msg))))
         = Some msg
       \<and> influxHistoricalData
           (hist (fetch_step tza cfg s (Resolve n (Response ok status statusText (Inl unread)))))
         = []
       \<and> historicalDataError
           (hist (fetch_step tza cfg s (Resolve n (Response ok status statusText (Inl unread)))))
         = Some unread"
  by (simp add: step_resolve [OF assms] resolve_ok resolve_not_ok resolve_rejected
                resolve_unreadable)

lemma two_issued:
  "fetch_run utc example_config [Issue ''a'' (Some RESISTANCE), Issue ''b'' (Some RESISTANCE)]
   = \<lparr> hist = \<lparr> influxHistoricalData = [], isHistoricalDataLoading = True,
                 historicalDataError = None \<rparr>,
       in_flight = [(0, ''a'', Some RESISTANCE), (1, ''b'', Some RESISTANCE)],
       issued = 2 \<rparr>"
  by (simp add: fetch_run_def fetch_init_def historical_init_def fetch_step_def
                fetchHistoricalData_start_def table_get_def SENSOR_TYPE_TO_INFLUX_FIELD_def)

lemma csv_a:
  "parseInfluxCSV utc (''_time,_value'' @ [CHR 0x0A] @ ''2024-01-01T00:00:00Z,1'')
     (Some RESISTANCE) ''a''
   = [\<lparr> date = 1704067200000, original_timestamp = ''2024-01-01T00:00:00.000Z'',
        sensor_id = ''a'', sensor_values = [(''resistance'', Finite 1)] \<rparr>]"
  by code_simp

theorem C1_every_response_is_applied_witness:
  "map_of (in_flight (fetch_run utc example_config
                        [Issue ''a'' (Some RESISTANCE), Issue ''b'' (Some RESISTANCE)])) 0
   = Some (''a'', Some RESISTANCE)
   \<and> influxHistoricalData
        (hist (fetch_step utc example_config
                 (fetch_run utc example_config
                    [Issue ''a'' (Some RESISTANCE), Issue ''b'' (Some RESISTANCE)])
                 (Resolve 0 (Response True 200 ''OK''
                    (Inr (''_time,_value'' @ [CHR 0x0A] @ ''2024-01-01T00:00:00Z,1''))))))
     = [\<lparr> date = 1704067200000, original_timestamp = ''2024-01-01T00:00:00.000Z'',
          sensor_id = ''a'', sensor_values = [(''resistance'', Finite 1)] \<rparr>]"
proof -
  have m: "map_of (in_flight (fetch_run utc example_config
                                [Issue ''a'' (Some RESISTANCE), Issue ''b'' (Some RESISTANCE)])) 0
           = Some (''a'', Some RESISTANCE)"
    by (simp add: two_issued)
  have "influxHistoricalData
          (hist (fetch_step utc example_config
                   (fetch_run utc example_config
                      [Issue ''a'' (Some RESISTANCE), Issue ''b'' (Some RESISTANCE)])
                   (Resolve 0 (Response True 200 ''OK''
                      (Inr (''_time,_value'' @ [CHR 0x0A] @ ''2024-01-01T00:00:00Z,1''))))))
        = parseInfluxCSV utc (''_time,_value'' @ [CHR 0x0A] @ ''2024-01-01T00:00:00Z,1'')
            (Some RESISTANCE) ''a''"
    using C1_every_response_is_applied [OF m, of utc example_config 200 "''OK''" _ "''x''"]
    by (rule conjunct1)
  with m show ?thesis
    by (simp only: csv_a simp_thms)
qed

text \<open>
  The claim as stated fails.  A fetch for sensor \<open>a\<close> is issued, then one for
  sensor \<open>b\<close>; the response for \<open>b\<close> arrives first, then the one for \<open>a\<close>.
  The stored result is then that of the superseded call for \<open>a\<close>.
\<close>

theorem C1_stale_response_counterexample:
  "map sensor_id
     (influxHistoricalData
        (hist (fetch_run utc example_config
                 [Issue ''a'' (Some RESISTANCE),
                  Issue ''b'' (Some RESISTANCE),
                  Resolve 1 (Response True 200 ''OK''
                    (Inr (''_time,_value'' @ [CHR 0x0A] @ ''2024-01-01T00:00:00Z,2''))),
                  Resolve 0 (Response True 200 ''OK''
                    (Inr (''_time,_value'' @ [CHR 0x0A] @ ''2024-01-01T00:00:00Z,1'')))])))
   = [''a'']"
proof -
  have "fetch_run utc example_config
          [Issue ''a'' (Some RESISTANCE), Issue ''b'' (Some RESISTANCE),
           Resolve 1 (Response True 200 ''OK''
             (Inr (''_time,_value'' @ [CHR 0x0A] @ ''2024-01-01T00:00:00Z,2''))),
           Resolve 0 (Response True 200 ''OK''
             (Inr (''_time,_value'' @ [CHR 0x0A] @ ''2024-01-01T00:00:00Z,1'')))]
        = fetch_step utc example_config
            (fetch_step utc example_config
               (fetch_run utc example_config
                  [Issue ''a'' (Some RESISTANCE), Issue ''b'' (Some RESISTANCE)])
               (Resolve 1 (Response True 200 ''OK''
                  (Inr (''_time,_value'' @ [CHR 0x0A] @ ''2024-01-01T00:00:00Z,2'')))))
            (Resolve 0 (Response True 200 ''OK''
               (Inr (''_time,_value'' @ [CHR 0x0A] @ ''2024-01-01T00:00:00Z,1''))))"
    by (simp add: fetch_run_def)
  then show ?thesis
    by (simp add: two_issued fetch_step_def resolve_ok csv_a [simplified])
qed

lemma stress_undefined: "SensorType_get ''STRESS'' = None"
  by (simp add: SensorType_get_def SensorType_members_def)

text \<open>
  C10 (amended).  The initial selection \<open>SensorType.STRESS\<close> is \<open>undefined\<close>.  A call
  of \<open>fetchHistoricalData\<close> with a sensor id and this kind would take the branch of
  the missing field mapping: the error text, the empty result, no request.  But
  both effects test the selection first, so with this selection the fetch effect calls
  nothing (it reports no error and at most empties the result) and the timer effect
  arms no timer.
\<close>

theorem C10_initial_kind_never_fetches:
  "selectedSensorForChart_init = None
   \<and> selectedSensorForChart_init \<notin> set (map Some ALL_SENSOR_TYPES)
   \<and> (sensorMeasurementId \<noteq> [] \<longrightarrow>
        fetchHistoricalData_start cfg sensorMeasurementId selectedSensorForChart_init st
        = (st\<lparr> influxHistoricalData := [],
                historicalDataError :=
                  Some ''Configuration error: No InfluxDB field mapping for undefined'' \<rparr>,
           None))
   \<and> fetch_effect cfg activeSensorIdForChart selectedSensorForChart_init st
     = (if id_truthy activeSensorIdForChart then st else st\<lparr> influxHistoricalData := [] \<rparr>,
        None)
   \<and> auto_update_effect
       (autoUpdateHistoricalData, activeSensorIdForChart, selectedSensorForChart_init) s
     = disarm s"
  by (simp add: selectedSensorForChart_init_def stress_undefined fetchHistoricalData_start_def
                table_get_def label_text_def fetch_effect_def kind_truthy_def
                auto_update_effect_def)

theorem C10_initial_kind_never_fetches_witness:
  "fetchHistoricalData_start example_config ''s1'' selectedSensorForChart_init historical_init
   = (historical_init\<lparr> historicalDataError :=
        Some ''Configuration error: No InfluxDB field mapping for undefined'' \<rparr>, None)
   \<and> fetch_effect example_config (Some ''s1'') selectedSensorForChart_init historical_init
     = (historical_init, None)"
  using C10_initial_kind_never_fetches
          [of "''s1''" example_config historical_init "Some ''s1''" True
              "\<lparr> autoUpdateIntervalRef = None, timers = [], next_timer = 1 \<rparr>"]
  by (simp add: id_truthy_def historical_init_def selectedSensorForChart_init_def stress_undefined)

text \<open>
  The claim as stated fails: when a sensor becomes active under the initial selection,
  the fetch effect reports no configuration error and sends nothing.
\<close>

theorem C10_no_error_reported_counterexample:
  "historicalDataError
     (fst (fetch_effect example_config (Some ''s1'') (SensorType_get ''STRESS'') historical_init))
   = None
   \<and> snd (fetch_effect example_config (Some ''s1'') (SensorType_get ''STRESS'') historical_init)
     = None"
  by (simp add: stress_undefined fetch_effect_def kind_truthy_def id_truthy_def
                historical_init_def)

section \<open>Properties of the auto-update timer\<close>















section \<open>Properties of the message handler\<close>

text \<open>
  C2 (amended).  A message that cannot be decoded changes nothing.  A decoded message
  changes nothing when its \<open>fields\<close> value is missing or falsy, or its
  \<open>timestamp\<close> is not a number, or it has neither a truthy \<open>name\<close> nor a
  non-empty third segment of the topic.  An empty \<open>fields\<close> map is not among these
  cases: it is truthy.
\<close>

theorem C2_rejected_message_changes_nothing:
  "on_message topic None prevLiveData = Inr prevLiveData
   \<and> (\<not> truthy (get_prop rawPayload ''fields'')
        \<or> \<not> is_number (get_prop rawPayload ''timestamp'')
        \<or> (\<not> truthy (get_prop rawPayload ''name'') \<and> \<not> truthy (third_segment topic))
      \<longrightarrow> on_message topic (Some rawPayload) prevLiveData = Inr prevLiveData)"
  by (simp add: on_message_def accepted_def)

lemmas msg_eval =
  on_message_def accepted_def truthy_def is_number_def get_prop_def third_segment_def
  live_updater_def Date_of_number_def times1000_def toISOString_def TimeClip_def
  entries_def set_prop_def sensorTypeFilters_def

theorem C2_rejected_message_changes_nothing_witness:
  "\<not> truthy (get_prop (JObject [(''timestamp'', JNumber (Finite 1700000000)),
                                 (''name'', JString ''s1'')]) ''fields'')
   \<and> on_message ''mapfeed/thws-trees/s1''
        (Some (JObject [(''timestamp'', JNumber (Finite 1700000000)), (''name'', JString ''s1'')]))
        None
     = Inr None
   \<and> \<not> is_number (get_prop (JObject [(''fields'', JObject [(''battery'', JNumber (Finite 3))]),
                                      (''timestamp'', JString ''now''),
                                      (''name'', JString ''s1'')]) ''timestamp'')
   \<and> on_message ''mapfeed/thws-trees/s1''
        (Some (JObject [(''fields'', JObject [(''battery'', JNumber (Finite 3))]),
                        (''timestamp'', JString ''now''), (''name'', JString ''s1'')]))
        None
     = Inr None"
  using C2_rejected_message_changes_nothing
          [of "''mapfeed/thws-trees/s1''" None
              "JObject [(''timestamp'', JNumber (Finite 1700000000)), (''name'', JString ''s1'')]"]
        C2_rejected_message_changes_nothing
          [of "''mapfeed/thws-trees/s1''" None
              "JObject [(''fields'', JObject [(''battery'', JNumber (Finite 3))]),
                        (''timestamp'', JString ''now''), (''name'', JString ''s1'')]"]
  by (simp add: truthy_def get_prop_def is_number_def)

lemma iso_1700000000: "iso_string 1700000000000 = ''2023-11-14T22:13:20.000Z''"
  by code_simp

text \<open>
  The claim as stated fails: a message with the empty \<open>fields\<close> map, a numeric
  timestamp and a name is accepted and changes the live data.
\<close>

theorem C2_empty_fields_counterexample:
  "(case on_message ''mapfeed/thws-trees/s1''
           (Some (JObject [(''fields'', JObject []),
                           (''timestamp'', JNumber (Finite 1700000000)),
                           (''name'', JString ''s1'')]))
           None of
      Inr (Some live) \<Rightarrow>
        live ''last_updated_timestamp'' = Some (JString ''2023-11-14T22:13:20.000Z'')
        \<and> live ''last_updated_sensor_id'' = Some (JString ''s1'')
    | _ \<Rightarrow> False)"
  by (simp add: msg_eval iso_1700000000 Let_def)

lemma fold_assign:
  assumes "\<And>a b obj. f (a, b) obj = set_prop obj a b"
  shows "fold f es obj k
         = (if k = ''__proto__'' then obj k
            else case map_of (rev es) k of Some v \<Rightarrow> Some v | None \<Rightarrow> obj k)"
proof (induction es arbitrary: obj)
  case Nil
  then show ?case by simp
next
  case (Cons e es)
  obtain a b where e: "e = (a, b)" by (cases e)
  have "fold f (e # es) obj k = fold f es (set_prop obj a b) k"
    by (simp add: e assms)
  also have "\<dots> = (if k = ''__proto__'' then set_prop obj a b k
              else case map_of (rev es) k of
                     Some v \<Rightarrow> Some v
                   | None \<Rightarrow> set_prop obj a b k)"
    by (rule Cons.IH)
  also have "\<dots> = (if k = ''__proto__'' then obj k
              else case map_of (rev (e # es)) k of Some v \<Rightarrow> Some v | None \<Rightarrow> obj k)"
    by (simp add: e set_prop_def map_add_def split: option.splits)
  finally show ?case .
qed

lemma fold_fields:
  "fold (\<lambda>(key, v) obj.
           if map_of sensorTypeFilters key \<noteq> Some False then set_prop obj key v else obj)
        es obj k
   = (if k = ''__proto__'' then obj k
      else case map_of (rev es) k of Some v \<Rightarrow> Some v | None \<Rightarrow> obj k)"
  by (rule fold_assign) (simp add: sensorTypeFilters_def)

lemma updater_field:
  assumes "live_updater ts eff name payloadFields prev = Some updated"
    and "k \<notin> provenance_keys"
  shows "updated k
         = (if k = ''__proto__'' then live_get prev k
            else case map_of (rev (entries payloadFields)) k of
                   Some v \<Rightarrow> Some v
                 | None \<Rightarrow> live_get prev k)"
proof -
  from assms(2) have k: "k \<noteq> ''last_updated_timestamp''" "k \<noteq> ''last_updated_sensor_id''"
      "k \<noteq> ''raw_message_name''"
    by (auto simp: provenance_keys_def)
  from assms(1) obtain isoText where
    u: "updated = fold (\<lambda>(key, v) obj.
                          if map_of sensorTypeFilters key \<noteq> Some False
                          then set_prop obj key v else obj)
                       (entries payloadFields)
                       ((case prev of None \<Rightarrow> Map.empty | Some p \<Rightarrow> p)
                          (''last_updated_timestamp'' \<mapsto> JString isoText,
                           ''last_updated_sensor_id'' \<mapsto> eff,
                           ''raw_message_name'' \<mapsto> name))"
    by (auto simp: live_updater_def Let_def split: option.splits)
  have base: "((case prev of None \<Rightarrow> Map.empty | Some p \<Rightarrow> p)
                 (''last_updated_timestamp'' \<mapsto> JString isoText,
                  ''last_updated_sensor_id'' \<mapsto> eff,
                  ''raw_message_name'' \<mapsto> name)) k = live_get prev k"
    using k by (simp add: live_get_def split: option.splits)
  show ?thesis
    unfolding u fold_fields base ..
qed

lemma accepted_update:
  assumes "accepted topic p" and "on_message topic (Some p) prev = Inr live'"
    and "k \<notin> provenance_keys"
  shows "live_get live' k
         = (if k = ''__proto__'' then live_get prev k
            else case field_value (Some p) k of
                   Some v \<Rightarrow> Some v
                 | None \<Rightarrow> live_get prev k)
       \<and> live' \<noteq> None"
proof -
  from assms(1) have obj: "p \<noteq> JNull" "p \<noteq> JUndefined"
    by (auto simp: accepted_def get_prop_def truthy_def)
  define ts where "ts = (case get_prop p ''timestamp'' of JNumber n \<Rightarrow> n | _ \<Rightarrow> NaN)"
  define eff where
    "eff = (if truthy (get_prop p ''name'') then get_prop p ''name''
            else if length (split CHR ''/'' topic) > 2 then JString (split CHR ''/'' topic ! 2)
            else JString ''unknown_sensor'')"
  have "on_message topic (Some p) prev
        = (case live_updater ts eff (get_prop p ''name'') (get_prop p ''fields'') prev of
             None \<Rightarrow> Inl RangeError
           | Some updated \<Rightarrow> Inr (Some updated))"
    using obj assms(1) by (simp add: on_message_def Let_def ts_def eff_def)
  with assms(2) obtain updated where
    u: "live_updater ts eff (get_prop p ''name'') (get_prop p ''fields'') prev = Some updated"
    and l: "live' = Some updated"
    by (cases "live_updater ts eff (get_prop p ''name'') (get_prop p ''fields'') prev") auto
  from updater_field [OF u assms(3)] l show ?thesis
    by (simp add: live_get_def field_value_def)
qed

lemma field_names_value: "k \<in> field_names m \<longleftrightarrow> field_value m k \<noteq> None"
proof (cases m)
  case None
  then show ?thesis by (simp add: field_names_def field_value_def)
next
  case (Some p)
  have "map_of (rev (entries (get_prop p ''fields''))) k \<noteq> None
        \<longleftrightarrow> k \<in> fst ` set (rev (entries (get_prop p ''fields'')))"
    by (simp add: map_of_eq_None_iff)
  with Some show ?thesis by (simp add: field_names_def field_value_def)
qed

lemma latest_value_None:
  "latest_value msgs k = None \<longleftrightarrow> (\<forall>tm \<in> set msgs. k \<notin> field_names (snd tm))"
proof (induction msgs)
  case Nil
  then show ?case by simp
next
  case (Cons tm msgs)
  obtain t m where tm: "tm = (t, m)" by (cases tm)
  show ?case
    unfolding tm using Cons.IH
    by (auto simp: field_names_value split: option.splits)
qed

lemma on_messages_fields:
  assumes "k \<notin> provenance_keys"
  shows "\<forall>tm \<in> set msgs. \<exists>p. snd tm = Some p \<and> accepted (fst tm) p
         \<Longrightarrow> on_messages msgs live = Inr live'
         \<Longrightarrow> live_get live' k
             = (if k = ''__proto__'' then live_get live k
                else case latest_value msgs k of
                       Some v \<Rightarrow> Some v
                     | None \<Rightarrow> live_get live k)
             \<and> (msgs \<noteq> [] \<longrightarrow> live' \<noteq> None)"
proof (induction msgs arbitrary: live)
  case Nil
  then show ?case by simp
next
  case (Cons tm msgs)
  obtain t m where tm: "tm = (t, m)" by (cases tm)
  from Cons.prems(1) tm obtain p where p: "m = Some p" "accepted t p" by auto
  from Cons.prems(2) tm obtain mid where
    mid: "on_message t (Some p) live = Inr mid" "on_messages msgs mid = Inr live'"
    by (auto simp: p split: sum.splits)
  have rest: "\<forall>tm \<in> set msgs. \<exists>p. snd tm = Some p \<and> accepted (fst tm) p"
    using Cons.prems(1) by simp
  note step = accepted_update [OF p(2) mid(1) assms]
  note ih = Cons.IH [OF rest mid(2)]
  have ne: "live' \<noteq> None"
  proof (cases msgs)
    case Nil
    with mid(2) step show ?thesis by simp
  next
    case (Cons a list)
    with ih show ?thesis by simp
  qed
  show ?case
  proof (cases "k = ''__proto__''")
    case True
    with step ih ne show ?thesis by simp
  next
    case False
    with step ih ne show ?thesis
      unfolding tm p by (simp split: option.splits)
  qed
qed

lemma on_message_valid:
  assumes "valid_message topic p"
  shows "\<exists>updated. on_message topic (Some p) prev = Inr (Some updated)"
proof -
  from assms have acc: "accepted topic p" by (simp add: valid_message_def)
  then have obj: "p \<noteq> JNull" "p \<noteq> JUndefined"
    by (auto simp: accepted_def get_prop_def truthy_def)
  from assms obtain t where
    "Date_of_number
       (times1000 (case get_prop p ''timestamp'' of JNumber n \<Rightarrow> n | _ \<Rightarrow> NaN)) = Some t"
    by (auto simp: valid_message_def)
  with acc obj show ?thesis
    by (simp add: on_message_def live_updater_def toISOString_def Let_def)
qed

lemma on_messages_valid:
  "\<forall>tm \<in> set msgs. \<exists>p. snd tm = Some p \<and> valid_message (fst tm) p
   \<Longrightarrow> \<exists>live'. on_messages msgs live = Inr live'"
proof (induction msgs arbitrary: live)
  case Nil
  then show ?case by simp
next
  case (Cons tm msgs)
  obtain t m where tm: "tm = (t, m)" by (cases tm)
  from Cons.prems tm obtain p where p: "m = Some p" "valid_message t p" by auto
  from on_message_valid [OF p(2), of live] obtain updated where
    u: "on_message t (Some p) live = Inr (Some updated)" by blast
  from Cons.prems have "\<forall>tm \<in> set msgs. \<exists>p. snd tm = Some p \<and> valid_message (fst tm) p"
    by simp
  from Cons.IH [OF this, of "Some updated"] show ?case
    by (simp add: tm p u)
qed

text \<open>
  C3 (amended).  Let every message of a sequence be valid (accepted, with a timestamp a
  \<open>Date\<close> can hold) and let none carry a field named as one of the three provenance
  properties or \<open>__proto__\<close>.  Then the sequence, applied from no live data, ends in
  live data (a snapshot, unless the sequence is empty); the properties of the snapshot
  other than the provenance ones are exactly the field names the messages carried, and
  each holds the value from the last message that carried it.
\<close>

theorem C3_snapshot_is_union_of_latest:
  assumes "\<forall>tm \<in> set msgs. \<exists>p. snd tm = Some p \<and> valid_message (fst tm) p"
    and "\<forall>tm \<in> set msgs. field_names (snd tm) \<inter> reserved_keys = {}"
  shows "\<exists>live. on_messages msgs None = Inr live
           \<and> (msgs \<noteq> [] \<longrightarrow> live \<noteq> None)
           \<and> {k. live_get live k \<noteq> None} - provenance_keys
             = (\<Union>tm \<in> set msgs. field_names (snd tm))
           \<and> (\<forall>k \<in> (\<Union>tm \<in> set msgs. field_names (snd tm)).
                 live_get live k = latest_value msgs k)"
proof -
  from on_messages_valid [OF assms(1)] obtain live where
    run: "on_messages msgs None = Inr live" by blast
  have acc: "\<forall>tm \<in> set msgs. \<exists>p. snd tm = Some p \<and> accepted (fst tm) p"
    using assms(1) by (auto simp: valid_message_def)
  have carried: "k \<notin> reserved_keys" if "k \<in> (\<Union>tm \<in> set msgs. field_names (snd tm))" for k
    using that assms(2) by auto
  have val: "live_get live k = (if k = ''__proto__'' then None else latest_value msgs k)"
    if "k \<notin> provenance_keys" for k
    using on_messages_fields [OF that acc run]
    by (simp add: live_get_def split: option.splits)
  have some: "msgs \<noteq> [] \<longrightarrow> live \<noteq> None"
  proof -
    have "''battery'' \<notin> provenance_keys" by (simp add: provenance_keys_def)
    from on_messages_fields [OF this acc run] show ?thesis by simp
  qed
  have "k \<in> {k. live_get live k \<noteq> None} - provenance_keys
        \<longleftrightarrow> k \<in> (\<Union>tm \<in> set msgs. field_names (snd tm))" for k
  proof
    assume "k \<in> {k. live_get live k \<noteq> None} - provenance_keys"
    then have "k \<notin> provenance_keys" "live_get live k \<noteq> None" by auto
    with val [of k] have "latest_value msgs k \<noteq> None" by (auto split: if_splits)
    then show "k \<in> (\<Union>tm \<in> set msgs. field_names (snd tm))"
      by (auto simp: latest_value_None)
  next
    assume u: "k \<in> (\<Union>tm \<in> set msgs. field_names (snd tm))"
    from carried [OF u] have r: "k \<notin> provenance_keys" "k \<noteq> ''__proto__''"
      by (auto simp: reserved_keys_def)
    from u have "latest_value msgs k \<noteq> None"
      by (auto simp: latest_value_None)
    with val [OF r(1)] r show "k \<in> {k. live_get live k \<noteq> None} - provenance_keys" by auto
  qed
  then have d: "{k. live_get live k \<noteq> None} - provenance_keys
                = (\<Union>tm \<in> set msgs. field_names (snd tm))"
    by blast
  have v: "live_get live k = latest_value msgs k"
    if "k \<in> (\<Union>tm \<in> set msgs. field_names (snd tm))" for k
    using val [of k] carried [OF that] by (auto simp: reserved_keys_def)
  show ?thesis
  proof (intro exI conjI)
    show "on_messages msgs None = Inr live" by (rule run)
    show "msgs \<noteq> [] \<longrightarrow> live \<noteq> None" by (rule some)
    show "{k. live_get live k \<noteq> None} - provenance_keys
          = (\<Union>tm \<in> set msgs. field_names (snd tm))" by (rule d)
    show "\<forall>k \<in> (\<Union>tm \<in> set msgs. field_names (snd tm)).
            live_get live k = latest_value msgs k"
      using v by (intro ballI)
  qed
qed

theorem C3_snapshot_is_union_of_latest_witness:
  "(case on_messages
           [(''mapfeed/thws-trees/a'',
             Some (JObject [(''fields'', JObject [(''battery'', JNumber (Finite 3)),
                                                  (''resistance'', JNumber (Finite 10))]),
                            (''timestamp'', JNumber (Finite 1700000000))])),
            (''mapfeed/thws-trees/b'',
             Some (JObject [(''fields'', JObject [(''battery'', JNumber (Finite 4))]),
                            (''name'', JString ''b''),
                            (''timestamp'', JNumber (Finite 1700000060))]))]
           None of
      Inr (Some snapshot) \<Rightarrow>
        dom snapshot - provenance_keys = {''battery'', ''resistance''}
        \<and> snapshot ''battery'' = Some (JNumber (Finite 4))
        \<and> snapshot ''resistance'' = Some (JNumber (Finite 10))
    | _ \<Rightarrow> False)"
proof -
  let ?msgs =
    "[(''mapfeed/thws-trees/a'',
       Some (JObject [(''fields'', JObject [(''battery'', JNumber (Finite 3)),
                                            (''resistance'', JNumber (Finite 10))]),
                      (''timestamp'', JNumber (Finite 1700000000))])),
      (''mapfeed/thws-trees/b'',
       Some (JObject [(''fields'', JObject [(''battery'', JNumber (Finite 4))]),
                      (''name'', JString ''b''),
                      (''timestamp'', JNumber (Finite 1700000060))]))]"
  have valid: "\<forall>tm \<in> set ?msgs. \<exists>p. snd tm = Some p \<and> valid_message (fst tm) p"
    by (simp add: valid_message_def accepted_def truthy_def is_number_def get_prop_def
                  third_segment_def Date_of_number_def times1000_def)
  have names: "(\<Union>tm \<in> set ?msgs. field_names (snd tm)) = {''battery'', ''resistance''}"
    by (auto simp: field_names_def get_prop_def entries_def)
  have res: "\<forall>tm \<in> set ?msgs. field_names (snd tm) \<inter> reserved_keys = {}"
    by (simp add: field_names_def get_prop_def entries_def reserved_keys_def
                  provenance_keys_def)
  have latest: "latest_value ?msgs ''battery'' = Some (JNumber (Finite 4))"
               "latest_value ?msgs ''resistance'' = Some (JNumber (Finite 10))"
    by (simp_all add: field_value_def get_prop_def entries_def)
  from C3_snapshot_is_union_of_latest [OF valid res] obtain live where
    all: "on_messages ?msgs None = Inr live
          \<and> (?msgs \<noteq> [] \<longrightarrow> live \<noteq> None)
          \<and> {k. live_get live k \<noteq> None} - provenance_keys
            = (\<Union>tm \<in> set ?msgs. field_names (snd tm))
          \<and> (\<forall>k \<in> (\<Union>tm \<in> set ?msgs. field_names (snd tm)).
                live_get live k = latest_value ?msgs k)" ..
  from all have run: "on_messages ?msgs None = Inr live" by (rule conjunct1)
  from all have some: "live \<noteq> None" by simp
  from all have d: "{k. live_get live k \<noteq> None} - provenance_keys = {''battery'', ''resistance''}"
    unfolding names by (elim conjE)
  from all have v: "\<forall>k \<in> {''battery'', ''resistance''}. live_get live k = latest_value ?msgs k"
    unfolding names by (elim conjE)
  from some obtain snapshot where s: "live = Some snapshot" by auto
  have "{k. live_get live k \<noteq> None} = dom snapshot"
    by (auto simp: s live_get_def)
  with d v latest
  have "dom snapshot - provenance_keys = {''battery'', ''resistance''}
        \<and> snapshot ''battery'' = Some (JNumber (Finite 4))
        \<and> snapshot ''resistance'' = Some (JNumber (Finite 10))"
    by (simp add: s live_get_def)
  then show ?thesis
    by (simp only: run s sum.case option.case)
qed

text \<open>
  The claim as stated fails twice.  For a field named as a provenance property: the
  first message carries the field \<open>last_updated_sensor_id\<close> with the value 5, the
  second does not carry it, and the snapshot holds the sensor id of the second message
  there.  And for a timestamp beyond the range of \<open>Date\<close>: the message is accepted,
  and the state update throws instead of giving a snapshot.
\<close>

theorem C3_provenance_key_counterexample:
  "(case on_messages
           [(''mapfeed/thws-trees/a'',
             Some (JObject [(''fields'',
                             JObject [(''last_updated_sensor_id'', JNumber (Finite 5))]),
                            (''name'', JString ''a''),
                            (''timestamp'', JNumber (Finite 1700000000))])),
            (''mapfeed/thws-trees/b'',
             Some (JObject [(''fields'', JObject [(''battery'', JNumber (Finite 3))]),
                            (''name'', JString ''b''),
                            (''timestamp'', JNumber (Finite 1700000060))]))]
           None of
      Inr (Some snapshot) \<Rightarrow> snapshot ''last_updated_sensor_id'' = Some (JString ''b'')
    | _ \<Rightarrow> False)
   \<and> latest_value
         [(''mapfeed/thws-trees/a'',
           Some (JObject [(''fields'',
                           JObject [(''last_updated_sensor_id'', JNumber (Finite 5))]),
                          (''name'', JString ''a''),
                          (''timestamp'', JNumber (Finite 1700000000))])),
          (''mapfeed/thws-trees/b'',
           Some (JObject [(''fields'', JObject [(''battery'', JNumber (Finite 3))]),
                          (''name'', JString ''b''),
                          (''timestamp'', JNumber (Finite 1700000060))]))]
         ''last_updated_sensor_id''
     = Some (JNumber (Finite 5))
   \<and> accepted ''mapfeed/thws-trees/a''
         (JObject [(''fields'', JObject [(''battery'', JNumber (Finite 3))]),
                   (''name'', JString ''a''),
                   (''timestamp'', JNumber (Finite 10000000000000))])
   \<and> on_messages
         [(''mapfeed/thws-trees/a'',
           Some (JObject [(''fields'', JObject [(''battery'', JNumber (Finite 3))]),
                          (''name'', JString ''a''),
                          (''timestamp'', JNumber (Finite 10000000000000))]))]
         None
     = Inl RangeError"
  by (simp add: msg_eval Let_def field_value_def)

end
